theory Spec2Isabelle
  imports Main
begin

section \<open>The instrumented topology connection (go/vt/topo/stats_conn.go)\<close>

text \<open>
  \<open>StatsConn\<close> wraps a topology \<open>Conn\<close>. Each method of the wrapper is embedded as a
  function over an explicit world: the semaphores the wrapper points to, the state of the
  wrapped connection, and a trace of every effect the method performs on its
  collaborators (the three package-level stats sinks, the read semaphore and the wrapped
  connection), in the order in which the Go code performs them. Deferred calls appear in
  the trace where they run: at return, last registered first.

  The clock is not part of the model: a duration sample is represented by its label, the
  \<open>statsKey\<close> passed to \<open>Record\<close>.
\<close>

subsection \<open>Values exchanged with the wrapped connection\<close>

text \<open>
  A Go \<open>error\<close> is a value; \<open>nil\<close> is \<open>None\<close> of \<open>error option\<close>.
  \<open>vterrors.Errorf code format args\<close> is \<open>VtError code message\<close>, the message being the
  formatted string. The other constructors are the two errors of a finished context and
  whatever the wrapped connection reports.
\<close>

datatype Code = Code_READ_ONLY | Code_UNKNOWN

datatype error =
    VtError Code string
  | Canceled
  | DeadlineExceeded
  | ConnError string

text \<open>
  Slices, pointers, channels and interface values can be \<open>nil\<close>: they are options. A
  \<open>[]byte\<close> is a list of 8-bit characters.
\<close>

type_synonym bytes = "string option"

datatype Version = VersionToken int
datatype DirEntry = DirEntry string
datatype KVInfo = KVInfo string string
datatype LockDescriptor = LockDescriptor string
datatype WatchData = WatchData string
datatype WatchDataRecursive = WatchDataRecursive string string
datatype 'a chan = Chan nat
datatype LeaderParticipation = LeaderParticipation string string

text \<open>
  A \<open>context.Context\<close> as the wrapper and the semaphore see it: already finished when the
  call starts (\<open>Done\<close>, with the value of \<open>ctx.Err()\<close>), finishing with the given error
  while a caller waits on it (\<open>Expiring\<close>), or never finishing (\<open>Background\<close>).
\<close>

datatype "context" = Background | Expiring error | Done error

text \<open>
  Modelled from the spec: the type \<open>LockType\<close> is declared outside this file; the lock
  dispatcher is parameterised by a lock kind in {Blocking, NonBlocking, Named}.
\<close>

datatype LockType = Blocking | NonBlocking | Named

subsection \<open>The read semaphore\<close>

text \<open>
  Modelled from the spec: \<open>semaphore.Weighted\<close> (golang.org/x/sync) is not part of this
  file. Its contract is a weighted counting gate with a fixed total capacity:
  \<open>Acquire ctx n\<close> blocks until \<open>n\<close> units are available or the context is finished, and
  fails with the context's error in the latter case, also when the context is already
  finished at entry; \<open>Release n\<close> gives \<open>n\<close> units back. In a sequential run nobody
  else releases while the caller waits, so a caller that has to wait gets the error its
  context ends with, and waits forever (\<open>None\<close>) on a context that never ends.
\<close>

record Weighted =
  size :: nat
  cur :: nat

fun Acquire :: "context \<Rightarrow> nat \<Rightarrow> Weighted \<Rightarrow> (error option \<times> Weighted) option" where
  "Acquire (Done e) n s = Some (Some e, s)"
| "Acquire ctx n s =
     (if cur s + n \<le> size s then Some (None, s\<lparr>cur := cur s + n\<rparr>)
      else (case ctx of Expiring e \<Rightarrow> Some (Some e, s) | _ \<Rightarrow> None))"

definition Release :: "nat \<Rightarrow> Weighted \<Rightarrow> Weighted" where
  "Release n s = s\<lparr>cur := cur s - n\<rparr>"

subsection \<open>The wrapped connection\<close>

text \<open>
  The \<open>Conn\<close> interface: one field per method. A method takes the state of the
  connection and returns its results, error included, with the new state. Go returns
  result and error side by side, and the wrapper hands both on, so they are a tuple here
  and not a sum.
\<close>

record 'cs Conn =
  connListDir :: "context \<Rightarrow> string \<Rightarrow> bool \<Rightarrow> 'cs \<Rightarrow> (DirEntry list option \<times> error option) \<times> 'cs"
  connCreate :: "context \<Rightarrow> string \<Rightarrow> bytes \<Rightarrow> 'cs \<Rightarrow> (Version option \<times> error option) \<times> 'cs"
  connUpdate :: "context \<Rightarrow> string \<Rightarrow> bytes \<Rightarrow> Version option \<Rightarrow> 'cs
                   \<Rightarrow> (Version option \<times> error option) \<times> 'cs"
  connGet :: "context \<Rightarrow> string \<Rightarrow> 'cs \<Rightarrow> (bytes \<times> Version option \<times> error option) \<times> 'cs"
  connGetVersion :: "context \<Rightarrow> string \<Rightarrow> int \<Rightarrow> 'cs \<Rightarrow> (bytes \<times> error option) \<times> 'cs"
  connList :: "context \<Rightarrow> string \<Rightarrow> 'cs \<Rightarrow> (KVInfo list option \<times> error option) \<times> 'cs"
  connDelete :: "context \<Rightarrow> string \<Rightarrow> Version option \<Rightarrow> 'cs \<Rightarrow> error option \<times> 'cs"
  connLock :: "context \<Rightarrow> string \<Rightarrow> string \<Rightarrow> 'cs \<Rightarrow> (LockDescriptor option \<times> error option) \<times> 'cs"
  connLockWithTTL :: "context \<Rightarrow> string \<Rightarrow> string \<Rightarrow> int \<Rightarrow> 'cs
                   \<Rightarrow> (LockDescriptor option \<times> error option) \<times> 'cs"
  connLockName :: "context \<Rightarrow> string \<Rightarrow> string \<Rightarrow> 'cs \<Rightarrow> (LockDescriptor option \<times> error option) \<times> 'cs"
  connTryLock :: "context \<Rightarrow> string \<Rightarrow> string \<Rightarrow> 'cs \<Rightarrow> (LockDescriptor option \<times> error option) \<times> 'cs"
  connWatch :: "context \<Rightarrow> string \<Rightarrow> 'cs
                   \<Rightarrow> (WatchData option \<times> WatchData chan option \<times> error option) \<times> 'cs"
  connWatchRecursive :: "context \<Rightarrow> string \<Rightarrow> 'cs
                   \<Rightarrow> (WatchDataRecursive list option \<times> WatchDataRecursive chan option \<times> error option) \<times> 'cs"
  connNewLeaderParticipation :: "string \<Rightarrow> string \<Rightarrow> 'cs
                   \<Rightarrow> (LeaderParticipation option \<times> error option) \<times> 'cs"
  connClose :: "'cs \<Rightarrow> 'cs"

text \<open>An invocation of the wrapped connection: the method and its arguments.\<close>

datatype call =
    CallListDir "context" string bool
  | CallCreate "context" string bytes
  | CallUpdate "context" string bytes "Version option"
  | CallGet "context" string
  | CallGetVersion "context" string int
  | CallList "context" string
  | CallDelete "context" string "Version option"
  | CallLock "context" string string
  | CallLockWithTTL "context" string string int
  | CallLockName "context" string string
  | CallTryLock "context" string string
  | CallWatch "context" string
  | CallWatchRecursive "context" string
  | CallNewLeaderParticipation string string
  | CallClose

subsection \<open>Effects and the world\<close>

text \<open>
  One event per call the wrapper makes on a collaborator:
  \<^item> \<open>GateAcquire r n err\<close>: \<open>Acquire(ctx, n)\<close> on the semaphore at \<open>r\<close> returned \<open>err\<close>;
  \<^item> \<open>GateRelease r n\<close>: \<open>Release(n)\<close> on the semaphore at \<open>r\<close>;
  \<^item> \<open>ReadWaitRecord key\<close>: \<open>topoStatsConnReadWaitTimings.Record(key, _)\<close>;
  \<^item> \<open>TimingsRecord key\<close>: \<open>topoStatsConnTimings.Record(key, _)\<close>;
  \<^item> \<open>ErrorsAdd key n\<close>: \<open>topoStatsConnErrors.Add(key, n)\<close>;
  \<^item> \<open>ConnCall c\<close>: a method of the wrapped connection was invoked.
\<close>

datatype event =
    GateAcquire nat nat "error option"
  | GateRelease nat nat
  | ReadWaitRecord "string list"
  | TimingsRecord "string list"
  | ErrorsAdd "string list" int
  | ConnCall call

record 'cs world =
  sems :: "nat \<Rightarrow> Weighted"
  connState :: 'cs
  trace :: "event list"

definition emit :: "event \<Rightarrow> 'cs world \<Rightarrow> 'cs world" where
  "emit e w = w\<lparr>trace := trace w @ [e]\<rparr>"

definition readWaitTimingsRecord :: "string list \<Rightarrow> 'cs world \<Rightarrow> 'cs world" where
  "readWaitTimingsRecord statsKey w = emit (ReadWaitRecord statsKey) w"

definition timingsRecord :: "string list \<Rightarrow> 'cs world \<Rightarrow> 'cs world" where
  "timingsRecord statsKey w = emit (TimingsRecord statsKey) w"

definition errorsAdd :: "string list \<Rightarrow> int \<Rightarrow> 'cs world \<Rightarrow> 'cs world" where
  "errorsAdd statsKey n w = emit (ErrorsAdd statsKey n) w"

text \<open>\<open>st.readSem.Acquire(ctx, n)\<close> and \<open>st.readSem.Release(n)\<close> on the semaphore at \<open>r\<close>.\<close>

definition semAcquire :: "nat \<Rightarrow> context \<Rightarrow> nat \<Rightarrow> 'cs world \<Rightarrow> (error option \<times> 'cs world) option" where
  "semAcquire r ctx n w =
     (case Acquire ctx n (sems w r) of
        None \<Rightarrow> None
      | Some (err, s) \<Rightarrow> Some (err, emit (GateAcquire r n err) (w\<lparr>sems := (sems w)(r := s)\<rparr>)))"

definition semRelease :: "nat \<Rightarrow> nat \<Rightarrow> 'cs world \<Rightarrow> 'cs world" where
  "semRelease r n w = emit (GateRelease r n) (w\<lparr>sems := (sems w)(r := Release n (sems w r))\<rparr>)"

text \<open>Invoking a method of the wrapped connection: the call is traced and the method run.\<close>

definition invoke :: "call \<Rightarrow> ('cs \<Rightarrow> 'a \<times> 'cs) \<Rightarrow> 'cs world \<Rightarrow> 'a \<times> 'cs world" where
  "invoke c m w =
     (case m (connState w) of (res, cs) \<Rightarrow> (res, (emit (ConnCall c) w)\<lparr>connState := cs\<rparr>))"

subsection \<open>StatsConn\<close>

record 'cs StatsConn =
  cell :: string
  conn :: "'cs Conn"
  readOnly :: bool
  readSem :: nat

definition readOnlyErrorStrFormat :: "string \<Rightarrow> string \<Rightarrow> string" where
  "readOnlyErrorStrFormat operation path =
     ''cannot perform '' @ operation @ '' on '' @ path
       @ '' as the topology server connection is read-only''"

definition NewStatsConn :: "string \<Rightarrow> 'cs Conn \<Rightarrow> nat \<Rightarrow> 'cs StatsConn" where
  "NewStatsConn c cn sem = \<lparr>cell = c, conn = cn, readOnly = False, readSem = sem\<rparr>"

definition ListDir :: "'cs StatsConn \<Rightarrow> context \<Rightarrow> string \<Rightarrow> bool \<Rightarrow> 'cs world
    \<Rightarrow> ((DirEntry list option \<times> error option) \<times> 'cs world) option" where
  "ListDir st ctx dirPath full w =
     (let statsKey = [''ListDir'', cell st] in
      case semAcquire (readSem st) ctx 1 w of
        None \<Rightarrow> None
      | Some (Some err, w1) \<Rightarrow> Some ((None, Some err), w1)
      | Some (None, w1) \<Rightarrow>
          (let w2 = readWaitTimingsRecord statsKey w1 in
           case invoke (CallListDir ctx dirPath full) (connListDir (conn st) ctx dirPath full) w2 of
             ((res, err), w3) \<Rightarrow>
               (let w4 = (if err \<noteq> None then errorsAdd statsKey 1 w3 else w3);
                    w5 = timingsRecord statsKey w4;
                    w6 = semRelease (readSem st) 1 w5
                in Some ((res, err), w6))))"

definition Create :: "'cs StatsConn \<Rightarrow> context \<Rightarrow> string \<Rightarrow> bytes \<Rightarrow> 'cs world
    \<Rightarrow> (Version option \<times> error option) \<times> 'cs world" where
  "Create st ctx filePath contents w =
     (let statsKey = [''Create'', cell st] in
      if readOnly st
      then ((None, Some (VtError Code_READ_ONLY (readOnlyErrorStrFormat (statsKey ! 0) filePath))), w)
      else
        case invoke (CallCreate ctx filePath contents) (connCreate (conn st) ctx filePath contents) w of
          ((res, err), w1) \<Rightarrow>
            (let w2 = (if err \<noteq> None then errorsAdd statsKey 1 w1 else w1);
                 w3 = timingsRecord statsKey w2
             in ((res, err), w3)))"

definition Update :: "'cs StatsConn \<Rightarrow> context \<Rightarrow> string \<Rightarrow> bytes \<Rightarrow> Version option \<Rightarrow> 'cs world
    \<Rightarrow> (Version option \<times> error option) \<times> 'cs world" where
  "Update st ctx filePath contents version w =
     (let statsKey = [''Update'', cell st] in
      if readOnly st
      then ((None, Some (VtError Code_READ_ONLY (readOnlyErrorStrFormat (statsKey ! 0) filePath))), w)
      else
        case invoke (CallUpdate ctx filePath contents version)
               (connUpdate (conn st) ctx filePath contents version) w of
          ((res, err), w1) \<Rightarrow>
            (let w2 = (if err \<noteq> None then errorsAdd statsKey 1 w1 else w1);
                 w3 = timingsRecord statsKey w2
             in ((res, err), w3)))"

definition Get :: "'cs StatsConn \<Rightarrow> context \<Rightarrow> string \<Rightarrow> 'cs world
    \<Rightarrow> ((bytes \<times> Version option \<times> error option) \<times> 'cs world) option" where
  "Get st ctx filePath w =
     (let statsKey = [''Get'', cell st] in
      case semAcquire (readSem st) ctx 1 w of
        None \<Rightarrow> None
      | Some (Some err, w1) \<Rightarrow> Some ((None, None, Some err), w1)
      | Some (None, w1) \<Rightarrow>
          (let w2 = readWaitTimingsRecord statsKey w1 in
           case invoke (CallGet ctx filePath) (connGet (conn st) ctx filePath) w2 of
             ((bytes, version, err), w3) \<Rightarrow>
               (let w4 = (if err \<noteq> None then errorsAdd statsKey 1 w3 else w3);
                    w5 = timingsRecord statsKey w4;
                    w6 = semRelease (readSem st) 1 w5
                in Some ((bytes, version, err), w6))))"

definition GetVersion :: "'cs StatsConn \<Rightarrow> context \<Rightarrow> string \<Rightarrow> int \<Rightarrow> 'cs world
    \<Rightarrow> ((bytes \<times> error option) \<times> 'cs world) option" where
  "GetVersion st ctx filePath version w =
     (let statsKey = [''GetVersion'', cell st] in
      case semAcquire (readSem st) ctx 1 w of
        None \<Rightarrow> None
      | Some (Some err, w1) \<Rightarrow> Some ((None, Some err), w1)
      | Some (None, w1) \<Rightarrow>
          (let w2 = readWaitTimingsRecord statsKey w1 in
           case invoke (CallGetVersion ctx filePath version)
                  (connGetVersion (conn st) ctx filePath version) w2 of
             ((bytes, err), w3) \<Rightarrow>
               (let w4 = (if err \<noteq> None then errorsAdd statsKey 1 w3 else w3);
                    w5 = timingsRecord statsKey w4;
                    w6 = semRelease (readSem st) 1 w5
                in Some ((bytes, err), w6))))"

definition List :: "'cs StatsConn \<Rightarrow> context \<Rightarrow> string \<Rightarrow> 'cs world
    \<Rightarrow> ((KVInfo list option \<times> error option) \<times> 'cs world) option" where
  "List st ctx filePathPrefix w =
     (let statsKey = [''List'', cell st] in
      case semAcquire (readSem st) ctx 1 w of
        None \<Rightarrow> None
      | Some (Some err, w1) \<Rightarrow> Some ((None, Some err), w1)
      | Some (None, w1) \<Rightarrow>
          (let w2 = readWaitTimingsRecord statsKey w1 in
           case invoke (CallList ctx filePathPrefix) (connList (conn st) ctx filePathPrefix) w2 of
             ((bytes, err), w3) \<Rightarrow>
               (let w4 = (if err \<noteq> None then errorsAdd statsKey 1 w3 else w3);
                    w5 = timingsRecord statsKey w4;
                    w6 = semRelease (readSem st) 1 w5
                in Some ((bytes, err), w6))))"

definition Delete :: "'cs StatsConn \<Rightarrow> context \<Rightarrow> string \<Rightarrow> Version option \<Rightarrow> 'cs world
    \<Rightarrow> error option \<times> 'cs world" where
  "Delete st ctx filePath version w =
     (let statsKey = [''Delete'', cell st] in
      if readOnly st
      then (Some (VtError Code_READ_ONLY (readOnlyErrorStrFormat (statsKey ! 0) filePath)), w)
      else
        case invoke (CallDelete ctx filePath version) (connDelete (conn st) ctx filePath version) w of
          (err, w1) \<Rightarrow>
            (let w2 = (if err \<noteq> None then errorsAdd statsKey 1 w1 else w1);
                 w3 = timingsRecord statsKey w2
             in (err, w3)))"

text \<open>
  \<open>internalLock\<close>: the first switch rewrites \<open>statsKey[0]\<close>, the second one picks the
  method of the wrapped connection, with \<open>Blocking\<close> falling to its default branch.
\<close>

definition internalLock :: "'cs StatsConn \<Rightarrow> context \<Rightarrow> string \<Rightarrow> string \<Rightarrow> LockType \<Rightarrow> int \<Rightarrow> 'cs world
    \<Rightarrow> (LockDescriptor option \<times> error option) \<times> 'cs world" where
  "internalLock st ctx dirPath contents lockType ttl w =
     (let statsKey0 = [''Lock'', cell st];
          statsKey = (if lockType = Named then statsKey0[0 := ''LockName'']
                      else if ttl \<noteq> 0 then statsKey0[0 := ''LockWithTTL'']
                      else statsKey0)
      in
      if readOnly st
      then ((None, Some (VtError Code_READ_ONLY (readOnlyErrorStrFormat (statsKey ! 0) dirPath))), w)
      else
        case (case lockType of
                NonBlocking \<Rightarrow>
                  invoke (CallTryLock ctx dirPath contents) (connTryLock (conn st) ctx dirPath contents) w
              | Named \<Rightarrow>
                  invoke (CallLockName ctx dirPath contents) (connLockName (conn st) ctx dirPath contents) w
              | _ \<Rightarrow>
                  (if ttl \<noteq> 0
                   then invoke (CallLockWithTTL ctx dirPath contents ttl)
                          (connLockWithTTL (conn st) ctx dirPath contents ttl) w
                   else invoke (CallLock ctx dirPath contents)
                          (connLock (conn st) ctx dirPath contents) w)) of
          ((res, err), w1) \<Rightarrow>
            (let w2 = (if err \<noteq> None then errorsAdd statsKey 1 w1 else w1);
                 w3 = timingsRecord statsKey w2
             in ((res, err), w3)))"

definition Lock :: "'cs StatsConn \<Rightarrow> context \<Rightarrow> string \<Rightarrow> string \<Rightarrow> 'cs world
    \<Rightarrow> (LockDescriptor option \<times> error option) \<times> 'cs world" where
  "Lock st ctx dirPath contents w = internalLock st ctx dirPath contents Blocking 0 w"

definition LockWithTTL :: "'cs StatsConn \<Rightarrow> context \<Rightarrow> string \<Rightarrow> string \<Rightarrow> int \<Rightarrow> 'cs world
    \<Rightarrow> (LockDescriptor option \<times> error option) \<times> 'cs world" where
  "LockWithTTL st ctx dirPath contents ttl w = internalLock st ctx dirPath contents Blocking ttl w"

definition LockName :: "'cs StatsConn \<Rightarrow> context \<Rightarrow> string \<Rightarrow> string \<Rightarrow> 'cs world
    \<Rightarrow> (LockDescriptor option \<times> error option) \<times> 'cs world" where
  "LockName st ctx dirPath contents w = internalLock st ctx dirPath contents Named 0 w"

definition TryLock :: "'cs StatsConn \<Rightarrow> context \<Rightarrow> string \<Rightarrow> string \<Rightarrow> 'cs world
    \<Rightarrow> (LockDescriptor option \<times> error option) \<times> 'cs world" where
  "TryLock st ctx dirPath contents w = internalLock st ctx dirPath contents NonBlocking 0 w"

definition Watch :: "'cs StatsConn \<Rightarrow> context \<Rightarrow> string \<Rightarrow> 'cs world
    \<Rightarrow> (WatchData option \<times> WatchData chan option \<times> error option) \<times> 'cs world" where
  "Watch st ctx filePath w =
     (let statsKey = [''Watch'', cell st] in
      case invoke (CallWatch ctx filePath) (connWatch (conn st) ctx filePath) w of
        (res, w1) \<Rightarrow> (res, timingsRecord statsKey w1))"

definition WatchRecursive :: "'cs StatsConn \<Rightarrow> context \<Rightarrow> string \<Rightarrow> 'cs world
    \<Rightarrow> (WatchDataRecursive list option \<times> WatchDataRecursive chan option \<times> error option) \<times> 'cs world" where
  "WatchRecursive st ctx path w =
     (let statsKey = [''WatchRecursive'', cell st] in
      case invoke (CallWatchRecursive ctx path) (connWatchRecursive (conn st) ctx path) w of
        (res, w1) \<Rightarrow> (res, timingsRecord statsKey w1))"

definition NewLeaderParticipation :: "'cs StatsConn \<Rightarrow> string \<Rightarrow> string \<Rightarrow> 'cs world
    \<Rightarrow> (LeaderParticipation option \<times> error option) \<times> 'cs world" where
  "NewLeaderParticipation st name ident w =
     (let statsKey = [''NewLeaderParticipation'', cell st] in
      case invoke (CallNewLeaderParticipation name ident)
             (connNewLeaderParticipation (conn st) name ident) w of
        ((res, err), w1) \<Rightarrow>
          (let w2 = (if err \<noteq> None then errorsAdd statsKey 1 w1 else w1);
               w3 = timingsRecord statsKey w2
           in ((res, err), w3)))"

definition Close :: "'cs StatsConn \<Rightarrow> 'cs world \<Rightarrow> 'cs world" where
  "Close st w =
     (let statsKey = [''Close'', cell st] in
      case invoke CallClose (\<lambda>cs. ((), connClose (conn st) cs)) w of
        (_, w1) \<Rightarrow> timingsRecord statsKey w1)"

definition SetReadOnly :: "bool \<Rightarrow> 'cs StatsConn \<Rightarrow> 'cs StatsConn" where
  "SetReadOnly b st = st\<lparr>readOnly := b\<rparr>"

definition IsReadOnly :: "'cs StatsConn \<Rightarrow> bool" where
  "IsReadOnly st = readOnly st"

subsection \<open>Reading the trace\<close>

text \<open>
  The events of a trace that are invocations of the wrapped connection, operations on a
  semaphore, samples of \<open>topoStatsConnTimings\<close>, increments of \<open>topoStatsConnErrors\<close>,
  samples of \<open>topoStatsConnReadWaitTimings\<close>, and samples of any of the three sinks.
\<close>

fun isCall :: "event \<Rightarrow> bool" where
  "isCall (ConnCall c) = True"
| "isCall _ = False"

fun isGate :: "event \<Rightarrow> bool" where
  "isGate (GateAcquire r n err) = True"
| "isGate (GateRelease r n) = True"
| "isGate _ = False"

fun isTimings :: "event \<Rightarrow> bool" where
  "isTimings (TimingsRecord k) = True"
| "isTimings _ = False"

fun isErrors :: "event \<Rightarrow> bool" where
  "isErrors (ErrorsAdd k n) = True"
| "isErrors _ = False"

fun isReadWait :: "event \<Rightarrow> bool" where
  "isReadWait (ReadWaitRecord k) = True"
| "isReadWait _ = False"

definition isMetric :: "event \<Rightarrow> bool" where
  "isMetric e = (isTimings e \<or> isErrors e \<or> isReadWait e)"

definition isGateOrCall :: "event \<Rightarrow> bool" where
  "isGateOrCall e = (isGate e \<or> isCall e)"

text \<open>
  What a call that reached the wrapped connection left in the two sinks, between the
  traces \<open>tr\<close> (before) and \<open>tr'\<close> (after): \<open>recorded\<close> is one duration sample under \<open>key\<close>
  and one increment of the error counter under \<open>key\<close> exactly when \<open>err\<close> is not nil;
  \<open>recordedTimingOnly\<close> is one duration sample under \<open>key\<close> and nothing in the error
  counter.
\<close>

definition recorded :: "string list \<Rightarrow> error option \<Rightarrow> event list \<Rightarrow> event list \<Rightarrow> bool" where
  "recorded key err tr tr' =
     (filter isTimings tr' = filter isTimings tr @ [TimingsRecord key] \<and>
      filter isErrors tr' = filter isErrors tr @ (if err = None then [] else [ErrorsAdd key 1]))"


subsection \<open>The lock dispatcher as the specification words it\<close>

text \<open>
  The label: base name "Lock", "LockName" for the named kind, "LockWithTTL" for a
  nonzero expiry, the named kind checked first. The route: the non-blocking kind goes to
  \<open>TryLock\<close>, the named kind to \<open>LockName\<close>, the default kind to \<open>LockWithTTL\<close> when the
  expiry is nonzero and to \<open>Lock\<close> otherwise.
\<close>

definition specLockLabel :: "LockType \<Rightarrow> int \<Rightarrow> string" where
  "specLockLabel kind ttl =
     (if kind = Named then ''LockName'' else if ttl \<noteq> 0 then ''LockWithTTL'' else ''Lock'')"

definition specLockRoute :: "context \<Rightarrow> string \<Rightarrow> string \<Rightarrow> LockType \<Rightarrow> int \<Rightarrow> call" where
  "specLockRoute ctx dirPath contents kind ttl =
     (if kind = NonBlocking then CallTryLock ctx dirPath contents
      else if kind = Named then CallLockName ctx dirPath contents
      else if ttl \<noteq> 0 then CallLockWithTTL ctx dirPath contents ttl
      else CallLock ctx dirPath contents)"

subsection \<open>A test double\<close>

text \<open>
  A connection that counts its invocations in its state and answers every method with a
  fixed result and the given error; a facade over it in cell "zone1" with its semaphore at
  address 0; and a world whose semaphores have capacity 1 and \<open>held\<close> units taken.
\<close>

definition fakeConn :: "error option \<Rightarrow> nat Conn" where
  "fakeConn err =
     \<lparr>connListDir = (\<lambda>ctx dirPath full n. ((Some [DirEntry ''b''], err), Suc n)),
      connCreate = (\<lambda>ctx filePath contents n. ((Some (VersionToken 1), err), Suc n)),
      connUpdate = (\<lambda>ctx filePath contents version n. ((Some (VersionToken 8), err), Suc n)),
      connGet = (\<lambda>ctx filePath n. ((Some ''v1'', Some (VersionToken 7), err), Suc n)),
      connGetVersion = (\<lambda>ctx filePath version n. ((Some ''v1'', err), Suc n)),
      connList = (\<lambda>ctx filePathPrefix n. ((Some [KVInfo ''/a/b'' ''v1''], err), Suc n)),
      connDelete = (\<lambda>ctx filePath version n. (err, Suc n)),
      connLock = (\<lambda>ctx dirPath contents n. ((Some (LockDescriptor ''lock''), err), Suc n)),
      connLockWithTTL = (\<lambda>ctx dirPath contents ttl n. ((Some (LockDescriptor ''ttl''), err), Suc n)),
      connLockName = (\<lambda>ctx dirPath contents n. ((Some (LockDescriptor ''name''), err), Suc n)),
      connTryLock = (\<lambda>ctx dirPath contents n. ((Some (LockDescriptor ''try''), err), Suc n)),
      connWatch = (\<lambda>ctx filePath n. ((Some (WatchData ''v1''), Some (Chan 0), err), Suc n)),
      connWatchRecursive =
        (\<lambda>ctx path n. ((Some [WatchDataRecursive ''/a/b'' ''v1''], Some (Chan 1), err), Suc n)),
      connNewLeaderParticipation =
        (\<lambda>name ident n. ((Some (LeaderParticipation name ident), err), Suc n)),
      connClose = Suc\<rparr>"

definition fakeFacade :: "error option \<Rightarrow> nat StatsConn" where
  "fakeFacade err = NewStatsConn ''zone1'' (fakeConn err) 0"

definition fakeWorld :: "nat \<Rightarrow> nat world" where
  "fakeWorld held = \<lparr>sems = (\<lambda>r. \<lparr>size = 1, cur = held\<rparr>), connState = 0, trace = []\<rparr>"

section \<open>Properties\<close>

lemmas effect_defs = emit_def readWaitTimingsRecord_def timingsRecord_def errorsAdd_def
  semAcquire_def semRelease_def invoke_def

lemmas lock_defs = Lock_def LockWithTTL_def LockName_def TryLock_def internalLock_def

lemmas fake_defs = fakeConn_def fakeFacade_def fakeWorld_def NewStatsConn_def

subsection \<open>The semaphore\<close>

lemma Acquire_granted:
  "Acquire ctx n s = Some (None, s1) \<Longrightarrow> s1 = s\<lparr>cur := cur s + n\<rparr>"
  by (cases ctx) (auto split: if_splits)

lemma Acquire_refused:
  "Acquire ctx n s = Some (Some e, s1) \<Longrightarrow> s1 = s"
  by (cases ctx) (auto split: if_splits)

lemma semAcquire_granted:
  assumes "Acquire ctx n (sems w r) = Some (None, s1)"
  shows "semAcquire r ctx n w
           = Some (None, w\<lparr>sems := (sems w)(r := (sems w r)\<lparr>cur := cur (sems w r) + n\<rparr>),
                             trace := trace w @ [GateAcquire r n None]\<rparr>)"
  using assms Acquire_granted [OF assms] by (simp add: semAcquire_def emit_def)

lemma semAcquire_refused:
  assumes "Acquire ctx n (sems w r) = Some (Some e, s1)"
  shows "semAcquire r ctx n w = Some (Some e, w\<lparr>trace := trace w @ [GateAcquire r n (Some e)]\<rparr>)"
  using assms Acquire_refused [OF assms] by (simp add: semAcquire_def emit_def)

lemma semAcquire_blocked:
  "Acquire ctx n (sems w r) = None \<Longrightarrow> semAcquire r ctx n w = None"
  by (simp add: semAcquire_def)

lemmas read_body_defs = readWaitTimingsRecord_def timingsRecord_def errorsAdd_def emit_def
  invoke_def semRelease_def Release_def Let_def split_beta

lemmas write_body_defs = timingsRecord_def errorsAdd_def emit_def invoke_def Let_def split_beta

subsection \<open>The read path, once the slot is held and when it is refused\<close>

lemma ListDir_granted:
  assumes "Acquire ctx 1 (sems w (readSem st)) = Some (None, s1)"
  shows "ListDir st ctx dirPath full w =
     Some (fst (connListDir (conn st) ctx dirPath full (connState w)),
           w\<lparr>connState := snd (connListDir (conn st) ctx dirPath full (connState w)),
              trace := trace w @ [GateAcquire (readSem st) 1 None,
                  ReadWaitRecord [''ListDir'', cell st], ConnCall (CallListDir ctx dirPath full)]
                @ (if snd (fst (connListDir (conn st) ctx dirPath full (connState w))) = None then []
                   else [ErrorsAdd [''ListDir'', cell st] 1])
                @ [TimingsRecord [''ListDir'', cell st], GateRelease (readSem st) 1]\<rparr>)"
  using semAcquire_granted [OF assms] by (simp add: ListDir_def read_body_defs)

lemma Get_granted:
  assumes "Acquire ctx 1 (sems w (readSem st)) = Some (None, s1)"
  shows "Get st ctx filePath w =
     Some (fst (connGet (conn st) ctx filePath (connState w)),
           w\<lparr>connState := snd (connGet (conn st) ctx filePath (connState w)),
              trace := trace w @ [GateAcquire (readSem st) 1 None,
                  ReadWaitRecord [''Get'', cell st], ConnCall (CallGet ctx filePath)]
                @ (if snd (snd (fst (connGet (conn st) ctx filePath (connState w)))) = None then []
                   else [ErrorsAdd [''Get'', cell st] 1])
                @ [TimingsRecord [''Get'', cell st], GateRelease (readSem st) 1]\<rparr>)"
  using semAcquire_granted [OF assms] by (simp add: Get_def read_body_defs)

lemma GetVersion_granted:
  assumes "Acquire ctx 1 (sems w (readSem st)) = Some (None, s1)"
  shows "GetVersion st ctx filePath version w =
     Some (fst (connGetVersion (conn st) ctx filePath version (connState w)),
           w\<lparr>connState := snd (connGetVersion (conn st) ctx filePath version (connState w)),
              trace := trace w @ [GateAcquire (readSem st) 1 None,
                  ReadWaitRecord [''GetVersion'', cell st],
                  ConnCall (CallGetVersion ctx filePath version)]
                @ (if snd (fst (connGetVersion (conn st) ctx filePath version (connState w))) = None
                   then [] else [ErrorsAdd [''GetVersion'', cell st] 1])
                @ [TimingsRecord [''GetVersion'', cell st], GateRelease (readSem st) 1]\<rparr>)"
  using semAcquire_granted [OF assms] by (simp add: GetVersion_def read_body_defs)

lemma List_granted:
  assumes "Acquire ctx 1 (sems w (readSem st)) = Some (None, s1)"
  shows "List st ctx filePathPrefix w =
     Some (fst (connList (conn st) ctx filePathPrefix (connState w)),
           w\<lparr>connState := snd (connList (conn st) ctx filePathPrefix (connState w)),
              trace := trace w @ [GateAcquire (readSem st) 1 None,
                  ReadWaitRecord [''List'', cell st], ConnCall (CallList ctx filePathPrefix)]
                @ (if snd (fst (connList (conn st) ctx filePathPrefix (connState w))) = None then []
                   else [ErrorsAdd [''List'', cell st] 1])
                @ [TimingsRecord [''List'', cell st], GateRelease (readSem st) 1]\<rparr>)"
  using semAcquire_granted [OF assms] by (simp add: List_def read_body_defs)

lemma ListDir_refused:
  assumes "Acquire ctx 1 (sems w (readSem st)) = Some (Some e, s1)"
  shows "ListDir st ctx dirPath full w =
     Some ((None, Some e), w\<lparr>trace := trace w @ [GateAcquire (readSem st) 1 (Some e)]\<rparr>)"
  using semAcquire_refused [OF assms] by (simp add: ListDir_def)

lemma Get_refused:
  assumes "Acquire ctx 1 (sems w (readSem st)) = Some (Some e, s1)"
  shows "Get st ctx filePath w =
     Some ((None, None, Some e), w\<lparr>trace := trace w @ [GateAcquire (readSem st) 1 (Some e)]\<rparr>)"
  using semAcquire_refused [OF assms] by (simp add: Get_def)

lemma GetVersion_refused:
  assumes "Acquire ctx 1 (sems w (readSem st)) = Some (Some e, s1)"
  shows "GetVersion st ctx filePath version w =
     Some ((None, Some e), w\<lparr>trace := trace w @ [GateAcquire (readSem st) 1 (Some e)]\<rparr>)"
  using semAcquire_refused [OF assms] by (simp add: GetVersion_def)

lemma List_refused:
  assumes "Acquire ctx 1 (sems w (readSem st)) = Some (Some e, s1)"
  shows "List st ctx filePathPrefix w =
     Some ((None, Some e), w\<lparr>trace := trace w @ [GateAcquire (readSem st) 1 (Some e)]\<rparr>)"
  using semAcquire_refused [OF assms] by (simp add: List_def)

text \<open>A read returns exactly when the acquisition on its semaphore does.\<close>

lemma reads_return_iff:
  "(ListDir st ctx dirPath full w = None) = (Acquire ctx 1 (sems w (readSem st)) = None)"
  "(Get st ctx filePath w = None) = (Acquire ctx 1 (sems w (readSem st)) = None)"
  "(GetVersion st ctx filePath version w = None) = (Acquire ctx 1 (sems w (readSem st)) = None)"
  "(List st ctx filePathPrefix w = None) = (Acquire ctx 1 (sems w (readSem st)) = None)"
proof -
  show "(ListDir st ctx dirPath full w = None) = (Acquire ctx 1 (sems w (readSem st)) = None)"
  proof (cases "Acquire ctx 1 (sems w (readSem st))")
    case None
    from semAcquire_blocked [OF None] None show ?thesis by (simp add: ListDir_def)
  next
    case (Some p)
    then show ?thesis
      by (cases p; cases "fst p") (simp_all add: ListDir_granted ListDir_refused)
  qed
  show "(Get st ctx filePath w = None) = (Acquire ctx 1 (sems w (readSem st)) = None)"
  proof (cases "Acquire ctx 1 (sems w (readSem st))")
    case None
    from semAcquire_blocked [OF None] None show ?thesis by (simp add: Get_def)
  next
    case (Some p)
    then show ?thesis
      by (cases p; cases "fst p") (simp_all add: Get_granted Get_refused)
  qed
  show "(GetVersion st ctx filePath version w = None) = (Acquire ctx 1 (sems w (readSem st)) = None)"
  proof (cases "Acquire ctx 1 (sems w (readSem st))")
    case None
    from semAcquire_blocked [OF None] None show ?thesis by (simp add: GetVersion_def)
  next
    case (Some p)
    then show ?thesis
      by (cases p; cases "fst p") (simp_all add: GetVersion_granted GetVersion_refused)
  qed
  show "(List st ctx filePathPrefix w = None) = (Acquire ctx 1 (sems w (readSem st)) = None)"
  proof (cases "Acquire ctx 1 (sems w (readSem st))")
    case None
    from semAcquire_blocked [OF None] None show ?thesis by (simp add: List_def)
  next
    case (Some p)
    then show ?thesis
      by (cases p; cases "fst p") (simp_all add: List_granted List_refused)
  qed
qed

subsection \<open>The write path and the lock dispatcher in read-write mode\<close>

lemma Create_delegated:
  assumes "\<not> readOnly st"
  shows "Create st ctx filePath contents w =
     (fst (connCreate (conn st) ctx filePath contents (connState w)),
      w\<lparr>connState := snd (connCreate (conn st) ctx filePath contents (connState w)),
         trace := trace w @ [ConnCall (CallCreate ctx filePath contents)]
           @ (if snd (fst (connCreate (conn st) ctx filePath contents (connState w))) = None then []
              else [ErrorsAdd [''Create'', cell st] 1])
           @ [TimingsRecord [''Create'', cell st]]\<rparr>)"
  using assms by (simp add: Create_def write_body_defs)

lemma Update_delegated:
  assumes "\<not> readOnly st"
  shows "Update st ctx filePath contents version w =
     (fst (connUpdate (conn st) ctx filePath contents version (connState w)),
      w\<lparr>connState := snd (connUpdate (conn st) ctx filePath contents version (connState w)),
         trace := trace w @ [ConnCall (CallUpdate ctx filePath contents version)]
           @ (if snd (fst (connUpdate (conn st) ctx filePath contents version (connState w))) = None
              then [] else [ErrorsAdd [''Update'', cell st] 1])
           @ [TimingsRecord [''Update'', cell st]]\<rparr>)"
  using assms by (simp add: Update_def write_body_defs)

lemma Delete_delegated:
  assumes "\<not> readOnly st"
  shows "Delete st ctx filePath version w =
     (fst (connDelete (conn st) ctx filePath version (connState w)),
      w\<lparr>connState := snd (connDelete (conn st) ctx filePath version (connState w)),
         trace := trace w @ [ConnCall (CallDelete ctx filePath version)]
           @ (if fst (connDelete (conn st) ctx filePath version (connState w)) = None then []
              else [ErrorsAdd [''Delete'', cell st] 1])
           @ [TimingsRecord [''Delete'', cell st]]\<rparr>)"
  using assms by (simp add: Delete_def write_body_defs)

lemma internalLock_NonBlocking:
  assumes "\<not> readOnly st"
  shows "internalLock st ctx dirPath contents NonBlocking ttl w =
     (fst (connTryLock (conn st) ctx dirPath contents (connState w)),
      w\<lparr>connState := snd (connTryLock (conn st) ctx dirPath contents (connState w)),
         trace := trace w @ [ConnCall (CallTryLock ctx dirPath contents)]
           @ (if snd (fst (connTryLock (conn st) ctx dirPath contents (connState w))) = None then []
              else [ErrorsAdd [if ttl \<noteq> 0 then ''LockWithTTL'' else ''Lock'', cell st] 1])
           @ [TimingsRecord [if ttl \<noteq> 0 then ''LockWithTTL'' else ''Lock'', cell st]]\<rparr>)"
  using assms by (simp add: internalLock_def write_body_defs)

lemma internalLock_Named:
  assumes "\<not> readOnly st"
  shows "internalLock st ctx dirPath contents Named ttl w =
     (fst (connLockName (conn st) ctx dirPath contents (connState w)),
      w\<lparr>connState := snd (connLockName (conn st) ctx dirPath contents (connState w)),
         trace := trace w @ [ConnCall (CallLockName ctx dirPath contents)]
           @ (if snd (fst (connLockName (conn st) ctx dirPath contents (connState w))) = None then []
              else [ErrorsAdd [''LockName'', cell st] 1])
           @ [TimingsRecord [''LockName'', cell st]]\<rparr>)"
  using assms by (simp add: internalLock_def write_body_defs)

lemma internalLock_Blocking_ttl:
  assumes "\<not> readOnly st" and "ttl \<noteq> 0"
  shows "internalLock st ctx dirPath contents Blocking ttl w =
     (fst (connLockWithTTL (conn st) ctx dirPath contents ttl (connState w)),
      w\<lparr>connState := snd (connLockWithTTL (conn st) ctx dirPath contents ttl (connState w)),
         trace := trace w @ [ConnCall (CallLockWithTTL ctx dirPath contents ttl)]
           @ (if snd (fst (connLockWithTTL (conn st) ctx dirPath contents ttl (connState w))) = None
              then [] else [ErrorsAdd [''LockWithTTL'', cell st] 1])
           @ [TimingsRecord [''LockWithTTL'', cell st]]\<rparr>)"
  using assms by (simp add: internalLock_def write_body_defs)

lemma internalLock_Blocking_plain:
  assumes "\<not> readOnly st"
  shows "internalLock st ctx dirPath contents Blocking 0 w =
     (fst (connLock (conn st) ctx dirPath contents (connState w)),
      w\<lparr>connState := snd (connLock (conn st) ctx dirPath contents (connState w)),
         trace := trace w @ [ConnCall (CallLock ctx dirPath contents)]
           @ (if snd (fst (connLock (conn st) ctx dirPath contents (connState w))) = None then []
              else [ErrorsAdd [''Lock'', cell st] 1])
           @ [TimingsRecord [''Lock'', cell st]]\<rparr>)"
  using assms by (simp add: internalLock_def write_body_defs)

subsection \<open>The operations that are neither gated nor guarded\<close>

lemma Watch_delegated:
  "Watch st ctx filePath w =
     (fst (connWatch (conn st) ctx filePath (connState w)),
      w\<lparr>connState := snd (connWatch (conn st) ctx filePath (connState w)),
         trace := trace w @ [ConnCall (CallWatch ctx filePath), TimingsRecord [''Watch'', cell st]]\<rparr>)"
  by (simp add: Watch_def write_body_defs)

lemma WatchRecursive_delegated:
  "WatchRecursive st ctx path w =
     (fst (connWatchRecursive (conn st) ctx path (connState w)),
      w\<lparr>connState := snd (connWatchRecursive (conn st) ctx path (connState w)),
         trace := trace w @ [ConnCall (CallWatchRecursive ctx path),
                             TimingsRecord [''WatchRecursive'', cell st]]\<rparr>)"
  by (simp add: WatchRecursive_def write_body_defs)

lemma NewLeaderParticipation_delegated:
  "NewLeaderParticipation st name ident w =
     (fst (connNewLeaderParticipation (conn st) name ident (connState w)),
      w\<lparr>connState := snd (connNewLeaderParticipation (conn st) name ident (connState w)),
         trace := trace w @ [ConnCall (CallNewLeaderParticipation name ident)]
           @ (if snd (fst (connNewLeaderParticipation (conn st) name ident (connState w))) = None
              then [] else [ErrorsAdd [''NewLeaderParticipation'', cell st] 1])
           @ [TimingsRecord [''NewLeaderParticipation'', cell st]]\<rparr>)"
  by (simp add: NewLeaderParticipation_def write_body_defs)

lemma Close_delegated:
  "Close st w =
     w\<lparr>connState := connClose (conn st) (connState w),
        trace := trace w @ [ConnCall CallClose, TimingsRecord [''Close'', cell st]]\<rparr>"
  by (simp add: Close_def write_body_defs)

lemma internalLock_dispatch:
  assumes "\<not> readOnly st"
  shows "filter isCall (trace (snd (internalLock st ctx dirPath contents kind ttl w)))
           = filter isCall (trace w) @ [ConnCall (specLockRoute ctx dirPath contents kind ttl)]
       \<and> recorded [specLockLabel kind ttl, cell st]
           (snd (fst (internalLock st ctx dirPath contents kind ttl w)))
           (trace w) (trace (snd (internalLock st ctx dirPath contents kind ttl w)))"
proof (cases kind)
  case Blocking
  show ?thesis
  proof (cases "ttl = 0")
    case True
    with Blocking assms show ?thesis
      by (simp add: internalLock_Blocking_plain specLockRoute_def specLockLabel_def recorded_def)
  next
    case False
    with Blocking assms show ?thesis
      by (simp add: internalLock_Blocking_ttl specLockRoute_def specLockLabel_def recorded_def)
  qed
next
  case NonBlocking
  with assms show ?thesis
    by (simp add: internalLock_NonBlocking specLockRoute_def specLockLabel_def recorded_def)
next
  case Named
  with assms show ?thesis
    by (simp add: internalLock_Named specLockRoute_def specLockLabel_def recorded_def)
qed

section \<open>The claims\<close>

text \<open>
  C1. In read-only mode each of Create, Update, Delete, Lock, LockWithTTL, LockName and
  TryLock returns the read-only error, whose message carries the operation name of the
  stats key and the target path, and returns the world as it received it: the wrapped
  connection is not invoked, the semaphore is not touched, and no sample or error count
  is recorded. The operation name of the three data mutations is their own; that of a
  lock variant is the label \<open>internalLock\<close> resolves ("Lock" for Lock and TryLock,
  "LockName" for LockName, "LockWithTTL" for LockWithTTL with a nonzero ttl and "Lock"
  with a zero one).
\<close>

theorem readonly_mutations_rejected:
  assumes "readOnly st"
  shows "Create st ctx filePath contents w
           = ((None, Some (VtError Code_READ_ONLY (readOnlyErrorStrFormat ''Create'' filePath))), w)
       \<and> Update st ctx filePath contents version w
           = ((None, Some (VtError Code_READ_ONLY (readOnlyErrorStrFormat ''Update'' filePath))), w)
       \<and> Delete st ctx filePath version w
           = (Some (VtError Code_READ_ONLY (readOnlyErrorStrFormat ''Delete'' filePath)), w)
       \<and> Lock st ctx dirPath lockContents w
           = ((None, Some (VtError Code_READ_ONLY (readOnlyErrorStrFormat ''Lock'' dirPath))), w)
       \<and> LockWithTTL st ctx dirPath lockContents ttl w
           = ((None, Some (VtError Code_READ_ONLY
                 (readOnlyErrorStrFormat (if ttl \<noteq> 0 then ''LockWithTTL'' else ''Lock'') dirPath))), w)
       \<and> LockName st ctx dirPath lockContents w
           = ((None, Some (VtError Code_READ_ONLY (readOnlyErrorStrFormat ''LockName'' dirPath))), w)
       \<and> TryLock st ctx dirPath lockContents w
           = ((None, Some (VtError Code_READ_ONLY (readOnlyErrorStrFormat ''Lock'' dirPath))), w)"
  using assms by (simp add: Create_def Update_def Delete_def lock_defs)

theorem readonly_mutations_rejected_witness:
  "readOnly (SetReadOnly True (fakeFacade None))
   \<and> Create (SetReadOnly True (fakeFacade None)) Background ''/a/b'' (Some ''v1'') (fakeWorld 0)
     = ((None, Some (VtError Code_READ_ONLY
          ''cannot perform Create on /a/b as the topology server connection is read-only'')),
        fakeWorld 0)
   \<and> Update (SetReadOnly True (fakeFacade None)) Background ''/a/b'' (Some ''v1'')
        (Some (VersionToken 7)) (fakeWorld 0)
     = ((None, Some (VtError Code_READ_ONLY
          ''cannot perform Update on /a/b as the topology server connection is read-only'')),
        fakeWorld 0)
   \<and> Delete (SetReadOnly True (fakeFacade None)) Background ''/a/b'' (Some (VersionToken 7))
        (fakeWorld 0)
     = (Some (VtError Code_READ_ONLY
          ''cannot perform Delete on /a/b as the topology server connection is read-only''),
        fakeWorld 0)
   \<and> Lock (SetReadOnly True (fakeFacade None)) Background ''/locks'' ''me'' (fakeWorld 0)
     = ((None, Some (VtError Code_READ_ONLY
          ''cannot perform Lock on /locks as the topology server connection is read-only'')),
        fakeWorld 0)
   \<and> LockWithTTL (SetReadOnly True (fakeFacade None)) Background ''/locks'' ''me'' 5 (fakeWorld 0)
     = ((None, Some (VtError Code_READ_ONLY
          ''cannot perform LockWithTTL on /locks as the topology server connection is read-only'')),
        fakeWorld 0)
   \<and> LockName (SetReadOnly True (fakeFacade None)) Background ''/locks'' ''me'' (fakeWorld 0)
     = ((None, Some (VtError Code_READ_ONLY
          ''cannot perform LockName on /locks as the topology server connection is read-only'')),
        fakeWorld 0)
   \<and> TryLock (SetReadOnly True (fakeFacade None)) Background ''/locks'' ''me'' (fakeWorld 0)
     = ((None, Some (VtError Code_READ_ONLY
          ''cannot perform Lock on /locks as the topology server connection is read-only'')),
        fakeWorld 0)"
proof -
  have ro: "readOnly (SetReadOnly True (fakeFacade None))"
    by (simp add: SetReadOnly_def)
  from readonly_mutations_rejected [OF ro, where ctx = Background and filePath = "''/a/b''"
      and contents = "Some ''v1''" and version = "Some (VersionToken 7)" and w = "fakeWorld 0"
      and dirPath = "''/locks''" and lockContents = "''me''" and ttl = 5]
  show ?thesis using ro by (simp add: readOnlyErrorStrFormat_def)
qed



text \<open>
  C3. Whenever the acquisition on the read semaphore returns, each of ListDir, Get,
  GetVersion and List returns, and leaves every semaphore as it found it. When the slot
  was granted (one unit more is held after the acquisition), the gate operations and
  connection calls of the read are, in this order, one acquisition of weight 1, the
  delegated call, and one release of weight 1, whatever the delegated call returns; when
  it was refused, the one failed acquisition is all there is.
\<close>

theorem read_ops_hold_one_slot:
  assumes "Acquire ctx 1 (sems w (readSem st)) = Some (err, s1)"
  shows "(\<exists>r w'. ListDir st ctx dirPath full w = Some (r, w') \<and> sems w' = sems w \<and>
            filter isGateOrCall (trace w') = filter isGateOrCall (trace w) @
              (if err = None
               then [GateAcquire (readSem st) 1 None, ConnCall (CallListDir ctx dirPath full),
                     GateRelease (readSem st) 1]
               else [GateAcquire (readSem st) 1 err]))
       \<and> (\<exists>r w'. Get st ctx filePath w = Some (r, w') \<and> sems w' = sems w \<and>
            filter isGateOrCall (trace w') = filter isGateOrCall (trace w) @
              (if err = None
               then [GateAcquire (readSem st) 1 None, ConnCall (CallGet ctx filePath),
                     GateRelease (readSem st) 1]
               else [GateAcquire (readSem st) 1 err]))
       \<and> (\<exists>r w'. GetVersion st ctx filePath version w = Some (r, w') \<and> sems w' = sems w \<and>
            filter isGateOrCall (trace w') = filter isGateOrCall (trace w) @
              (if err = None
               then [GateAcquire (readSem st) 1 None, ConnCall (CallGetVersion ctx filePath version),
                     GateRelease (readSem st) 1]
               else [GateAcquire (readSem st) 1 err]))
       \<and> (\<exists>r w'. List st ctx filePathPrefix w = Some (r, w') \<and> sems w' = sems w \<and>
            filter isGateOrCall (trace w') = filter isGateOrCall (trace w) @
              (if err = None
               then [GateAcquire (readSem st) 1 None, ConnCall (CallList ctx filePathPrefix),
                     GateRelease (readSem st) 1]
               else [GateAcquire (readSem st) 1 err]))
       \<and> cur s1 = (if err = None then cur (sems w (readSem st)) + 1 else cur (sems w (readSem st)))"
proof (cases err)
  case None
  with assms have g: "Acquire ctx 1 (sems w (readSem st)) = Some (None, s1)"
    by simp
  from Acquire_granted [OF g] None show ?thesis
    by (simp add: ListDir_granted [OF g] Get_granted [OF g] GetVersion_granted [OF g]
        List_granted [OF g] isGateOrCall_def del: split_paired_Ex)
next
  case (Some e)
  with assms have r: "Acquire ctx 1 (sems w (readSem st)) = Some (Some e, s1)"
    by simp
  from Acquire_refused [OF r] Some show ?thesis
    by (simp add: ListDir_refused [OF r] Get_refused [OF r] GetVersion_refused [OF r]
        List_refused [OF r] isGateOrCall_def del: split_paired_Ex)
qed

theorem read_ops_hold_one_slot_witness:
  "Acquire Background 1 (sems (fakeWorld 0) (readSem (fakeFacade (Some (ConnError ''no node'')))))
     = Some (None, \<lparr>size = 1, cur = 1\<rparr>)
   \<and> (\<exists>r w'. Get (fakeFacade (Some (ConnError ''no node''))) Background ''/a/b'' (fakeWorld 0)
                = Some (r, w')
         \<and> sems w' = sems (fakeWorld 0)
         \<and> filter isGateOrCall (trace w')
             = [GateAcquire 0 1 None, ConnCall (CallGet Background ''/a/b''), GateRelease 0 1])"
proof -
  have g: "Acquire Background 1 (sems (fakeWorld 0) (readSem (fakeFacade (Some (ConnError ''no node'')))))
     = Some (None, \<lparr>size = 1, cur = 1\<rparr>)"
    by (simp add: fakeWorld_def)
  from read_ops_hold_one_slot [OF g, where filePath = "''/a/b''"]
  have "\<exists>r w'. Get (fakeFacade (Some (ConnError ''no node''))) Background ''/a/b'' (fakeWorld 0)
                = Some (r, w')
         \<and> sems w' = sems (fakeWorld 0)
         \<and> filter isGateOrCall (trace w')
             = filter isGateOrCall (trace (fakeWorld 0)) @
               [GateAcquire (readSem (fakeFacade (Some (ConnError ''no node'')))) 1 None,
                ConnCall (CallGet Background ''/a/b''),
                GateRelease (readSem (fakeFacade (Some (ConnError ''no node'')))) 1]"
    by simp
  with g show ?thesis
    by (simp add: fakeWorld_def fakeFacade_def NewStatsConn_def)
qed

text \<open>
  C4. When the acquisition on the read semaphore fails with error \<open>e\<close>, each of ListDir,
  Get, GetVersion and List returns nil results with exactly \<open>e\<close>, and the only thing it
  adds to the world is the failed acquisition in the trace: no call of the wrapped
  connection, no sample in any of the three sinks, and the semaphore as it was (no slot
  held). A context that is already finished at entry makes the acquisition fail with the
  context's error.
\<close>

theorem read_refused_at_gate:
  assumes "Acquire ctx 1 (sems w (readSem st)) = Some (Some e, s1)"
  shows "ListDir st ctx dirPath full w
           = Some ((None, Some e), w\<lparr>trace := trace w @ [GateAcquire (readSem st) 1 (Some e)]\<rparr>)
       \<and> Get st ctx filePath w
           = Some ((None, None, Some e), w\<lparr>trace := trace w @ [GateAcquire (readSem st) 1 (Some e)]\<rparr>)
       \<and> GetVersion st ctx filePath version w
           = Some ((None, Some e), w\<lparr>trace := trace w @ [GateAcquire (readSem st) 1 (Some e)]\<rparr>)
       \<and> List st ctx filePathPrefix w
           = Some ((None, Some e), w\<lparr>trace := trace w @ [GateAcquire (readSem st) 1 (Some e)]\<rparr>)
       \<and> s1 = sems w (readSem st)
       \<and> filter isCall (trace w @ [GateAcquire (readSem st) 1 (Some e)]) = filter isCall (trace w)
       \<and> filter isMetric (trace w @ [GateAcquire (readSem st) 1 (Some e)]) = filter isMetric (trace w)
       \<and> Acquire (Done e) 1 (sems w (readSem st)) = Some (Some e, sems w (readSem st))"
  using Acquire_refused [OF assms]
  by (simp add: ListDir_refused [OF assms] Get_refused [OF assms] GetVersion_refused [OF assms]
      List_refused [OF assms] isMetric_def)

theorem read_refused_at_gate_witness:
  "Acquire (Done Canceled) 1 (sems (fakeWorld 0) (readSem (fakeFacade None)))
     = Some (Some Canceled, \<lparr>size = 1, cur = 0\<rparr>)
   \<and> Get (fakeFacade None) (Done Canceled) ''/a/b'' (fakeWorld 0)
     = Some ((None, None, Some Canceled),
             \<lparr>sems = (\<lambda>r. \<lparr>size = 1, cur = 0\<rparr>), connState = 0,
              trace = [GateAcquire 0 1 (Some Canceled)]\<rparr>)
   \<and> Acquire (Expiring DeadlineExceeded) 1 (sems (fakeWorld 1) (readSem (fakeFacade None)))
     = Some (Some DeadlineExceeded, \<lparr>size = 1, cur = 1\<rparr>)
   \<and> ListDir (fakeFacade None) (Expiring DeadlineExceeded) ''/a'' True (fakeWorld 1)
     = Some ((None, Some DeadlineExceeded),
             \<lparr>sems = (\<lambda>r. \<lparr>size = 1, cur = 1\<rparr>), connState = 0,
              trace = [GateAcquire 0 1 (Some DeadlineExceeded)]\<rparr>)"
proof -
  have d: "Acquire (Expiring DeadlineExceeded) 1 (sems (fakeWorld 1) (readSem (fakeFacade None)))
     = Some (Some DeadlineExceeded, \<lparr>size = 1, cur = 1\<rparr>)"
    by (simp add: fakeWorld_def)
  from read_refused_at_gate [OF d, where dirPath = "''/a''" and full = True]
  have l: "ListDir (fakeFacade None) (Expiring DeadlineExceeded) ''/a'' True (fakeWorld 1)
     = Some ((None, Some DeadlineExceeded),
             (fakeWorld 1)\<lparr>trace := trace (fakeWorld 1)
                @ [GateAcquire (readSem (fakeFacade None)) 1 (Some DeadlineExceeded)]\<rparr>)"
    by simp
  have r: "Acquire (Done Canceled) 1 (sems (fakeWorld 0) (readSem (fakeFacade None)))
     = Some (Some Canceled, \<lparr>size = 1, cur = 0\<rparr>)"
    by (simp add: fakeWorld_def)
  from read_refused_at_gate [OF r, where filePath = "''/a/b''"]
  have "Get (fakeFacade None) (Done Canceled) ''/a/b'' (fakeWorld 0)
     = Some ((None, None, Some Canceled),
             (fakeWorld 0)\<lparr>trace := trace (fakeWorld 0)
                @ [GateAcquire (readSem (fakeFacade None)) 1 (Some Canceled)]\<rparr>)"
    by simp
  with r d l show ?thesis
    by (simp add: fakeWorld_def fakeFacade_def NewStatsConn_def)
qed




text \<open>
  C6. Every operation that delegates returns what the wrapped connection returned, results
  and error alike, and leaves the connection in the state the delegated call produced:
  the reads once their slot is granted, the mutations in read-write mode (LockWithTTL
  with a zero ttl delegates to the wrapped Lock), and Watch, WatchRecursive and
  NewLeaderParticipation always. A Get for which the wrapped connection answers
  (bytes, version, nil) returns exactly (bytes, version, nil).
\<close>

theorem facade_passthrough:
  "(Acquire ctx 1 (sems w (readSem st)) = Some (None, s1) \<longrightarrow>
      map_option fst (ListDir st ctx dirPath full w)
        = Some (fst (connListDir (conn st) ctx dirPath full (connState w)))
    \<and> map_option fst (Get st ctx filePath w)
        = Some (fst (connGet (conn st) ctx filePath (connState w)))
    \<and> map_option fst (GetVersion st ctx filePath versionNumber w)
        = Some (fst (connGetVersion (conn st) ctx filePath versionNumber (connState w)))
    \<and> map_option fst (List st ctx filePathPrefix w)
        = Some (fst (connList (conn st) ctx filePathPrefix (connState w))))
   \<and> (\<not> readOnly st \<longrightarrow>
      fst (Create st ctx filePath contents w)
        = fst (connCreate (conn st) ctx filePath contents (connState w))
    \<and> fst (Update st ctx filePath contents version w)
        = fst (connUpdate (conn st) ctx filePath contents version (connState w))
    \<and> fst (Delete st ctx filePath version w)
        = fst (connDelete (conn st) ctx filePath version (connState w))
    \<and> fst (Lock st ctx dirPath lockContents w)
        = fst (connLock (conn st) ctx dirPath lockContents (connState w))
    \<and> fst (LockWithTTL st ctx dirPath lockContents ttl w)
        = (if ttl \<noteq> 0 then fst (connLockWithTTL (conn st) ctx dirPath lockContents ttl (connState w))
           else fst (connLock (conn st) ctx dirPath lockContents (connState w)))
    \<and> fst (LockName st ctx dirPath lockContents w)
        = fst (connLockName (conn st) ctx dirPath lockContents (connState w))
    \<and> fst (TryLock st ctx dirPath lockContents w)
        = fst (connTryLock (conn st) ctx dirPath lockContents (connState w)))
   \<and> fst (Watch st ctx filePath w) = fst (connWatch (conn st) ctx filePath (connState w))
   \<and> fst (WatchRecursive st ctx filePath w)
        = fst (connWatchRecursive (conn st) ctx filePath (connState w))
   \<and> fst (NewLeaderParticipation st name ident w)
        = fst (connNewLeaderParticipation (conn st) name ident (connState w))"
proof -
  have reads: "Acquire ctx 1 (sems w (readSem st)) = Some (None, s1) \<longrightarrow>
      map_option fst (ListDir st ctx dirPath full w)
        = Some (fst (connListDir (conn st) ctx dirPath full (connState w)))
    \<and> map_option fst (Get st ctx filePath w)
        = Some (fst (connGet (conn st) ctx filePath (connState w)))
    \<and> map_option fst (GetVersion st ctx filePath versionNumber w)
        = Some (fst (connGetVersion (conn st) ctx filePath versionNumber (connState w)))
    \<and> map_option fst (List st ctx filePathPrefix w)
        = Some (fst (connList (conn st) ctx filePathPrefix (connState w)))"
    by (simp add: ListDir_granted Get_granted GetVersion_granted List_granted)
  have writes: "\<not> readOnly st \<longrightarrow>
      fst (Create st ctx filePath contents w)
        = fst (connCreate (conn st) ctx filePath contents (connState w))
    \<and> fst (Update st ctx filePath contents version w)
        = fst (connUpdate (conn st) ctx filePath contents version (connState w))
    \<and> fst (Delete st ctx filePath version w)
        = fst (connDelete (conn st) ctx filePath version (connState w))"
    by (simp add: Create_delegated Update_delegated Delete_delegated)
  have locks: "\<not> readOnly st \<longrightarrow>
      fst (Lock st ctx dirPath lockContents w)
        = fst (connLock (conn st) ctx dirPath lockContents (connState w))
    \<and> fst (LockWithTTL st ctx dirPath lockContents ttl w)
        = (if ttl \<noteq> 0 then fst (connLockWithTTL (conn st) ctx dirPath lockContents ttl (connState w))
           else fst (connLock (conn st) ctx dirPath lockContents (connState w)))
    \<and> fst (LockName st ctx dirPath lockContents w)
        = fst (connLockName (conn st) ctx dirPath lockContents (connState w))
    \<and> fst (TryLock st ctx dirPath lockContents w)
        = fst (connTryLock (conn st) ctx dirPath lockContents (connState w))"
    by (cases "ttl = 0")
      (simp_all add: Lock_def LockWithTTL_def LockName_def TryLock_def internalLock_Blocking_plain
        internalLock_Blocking_ttl internalLock_Named internalLock_NonBlocking)
  have rest: "fst (Watch st ctx filePath w) = fst (connWatch (conn st) ctx filePath (connState w))
   \<and> fst (WatchRecursive st ctx filePath w)
        = fst (connWatchRecursive (conn st) ctx filePath (connState w))
   \<and> fst (NewLeaderParticipation st name ident w)
        = fst (connNewLeaderParticipation (conn st) name ident (connState w))"
    by (simp add: NewLeaderParticipation_delegated Watch_delegated WatchRecursive_delegated)
  from reads writes locks rest show ?thesis by blast
qed

theorem facade_passthrough_witness:
  "Acquire Background 1 (sems (fakeWorld 0) (readSem (fakeFacade None)))
     = Some (None, \<lparr>size = 1, cur = 1\<rparr>)
   \<and> \<not> readOnly (fakeFacade None)
   \<and> map_option fst (Get (fakeFacade None) Background ''/a/b'' (fakeWorld 0))
     = Some (Some ''v1'', Some (VersionToken 7), None)
   \<and> fst (Update (fakeFacade None) Background ''/a/b'' (Some ''v2'') (Some (VersionToken 7))
        (fakeWorld 0))
     = (Some (VersionToken 8), None)"
proof -
  have g: "Acquire Background 1 (sems (fakeWorld 0) (readSem (fakeFacade None)))
     = Some (None, \<lparr>size = 1, cur = 1\<rparr>)"
    by (simp add: fakeWorld_def)
  have rw: "\<not> readOnly (fakeFacade None)"
    by (simp add: fakeFacade_def NewStatsConn_def)
  from facade_passthrough [where st = "fakeFacade None" and ctx = Background and w = "fakeWorld 0"
      and ?s1.0 = "\<lparr>size = 1, cur = 1\<rparr>" and filePath = "''/a/b''" and contents = "Some ''v2''"
      and version = "Some (VersionToken 7)"] g rw
  have "map_option fst (Get (fakeFacade None) Background ''/a/b'' (fakeWorld 0))
        = Some (fst (connGet (conn (fakeFacade None)) Background ''/a/b'' (connState (fakeWorld 0))))
    \<and> fst (Update (fakeFacade None) Background ''/a/b'' (Some ''v2'') (Some (VersionToken 7))
        (fakeWorld 0))
        = fst (connUpdate (conn (fakeFacade None)) Background ''/a/b'' (Some ''v2'')
            (Some (VersionToken 7)) (connState (fakeWorld 0)))"
    by blast
  with g rw show ?thesis by (simp add: fake_defs)
qed

text \<open>
  C7. Watch, WatchRecursive, NewLeaderParticipation and Close behave the same whatever the
  read-only flag is set to, return what the wrapped connection returns, invoke it exactly
  once, leave every semaphore as it was and perform no operation on a semaphore.
\<close>

theorem admin_ops_ungated_unguarded:
  "Watch (SetReadOnly b st) ctx filePath w = Watch st ctx filePath w
   \<and> fst (Watch st ctx filePath w) = fst (connWatch (conn st) ctx filePath (connState w))
   \<and> sems (snd (Watch st ctx filePath w)) = sems w
   \<and> filter isGate (trace (snd (Watch st ctx filePath w))) = filter isGate (trace w)
   \<and> filter isCall (trace (snd (Watch st ctx filePath w)))
       = filter isCall (trace w) @ [ConnCall (CallWatch ctx filePath)]
   \<and> WatchRecursive (SetReadOnly b st) ctx filePath w = WatchRecursive st ctx filePath w
   \<and> fst (WatchRecursive st ctx filePath w)
       = fst (connWatchRecursive (conn st) ctx filePath (connState w))
   \<and> sems (snd (WatchRecursive st ctx filePath w)) = sems w
   \<and> filter isGate (trace (snd (WatchRecursive st ctx filePath w))) = filter isGate (trace w)
   \<and> filter isCall (trace (snd (WatchRecursive st ctx filePath w)))
       = filter isCall (trace w) @ [ConnCall (CallWatchRecursive ctx filePath)]
   \<and> NewLeaderParticipation (SetReadOnly b st) name ident w = NewLeaderParticipation st name ident w
   \<and> fst (NewLeaderParticipation st name ident w)
       = fst (connNewLeaderParticipation (conn st) name ident (connState w))
   \<and> sems (snd (NewLeaderParticipation st name ident w)) = sems w
   \<and> filter isGate (trace (snd (NewLeaderParticipation st name ident w))) = filter isGate (trace w)
   \<and> filter isCall (trace (snd (NewLeaderParticipation st name ident w)))
       = filter isCall (trace w) @ [ConnCall (CallNewLeaderParticipation name ident)]
   \<and> Close (SetReadOnly b st) w = Close st w
   \<and> connState (Close st w) = connClose (conn st) (connState w)
   \<and> sems (Close st w) = sems w
   \<and> filter isGate (trace (Close st w)) = filter isGate (trace w)
   \<and> filter isCall (trace (Close st w)) = filter isCall (trace w) @ [ConnCall CallClose]"
  by (simp add: Watch_delegated WatchRecursive_delegated NewLeaderParticipation_delegated
      Close_delegated SetReadOnly_def)

text \<open>
  C8. \<open>SetReadOnly b\<close> overwrites the flag, \<open>IsReadOnly\<close> reads the value last set (true
  after setting true twice, false after false, true, false), an earlier setting leaves
  no trace behind a later one, and cell, wrapped connection and semaphore of the facade
  are what they were.
\<close>

theorem SetReadOnly_overwrites:
  "IsReadOnly (SetReadOnly b st) = b
   \<and> IsReadOnly (SetReadOnly True (SetReadOnly True st))
   \<and> IsReadOnly (SetReadOnly False (SetReadOnly True (SetReadOnly False st))) = False
   \<and> SetReadOnly b (SetReadOnly a st) = SetReadOnly b st
   \<and> cell (SetReadOnly b st) = cell st
   \<and> conn (SetReadOnly b st) = conn st
   \<and> readSem (SetReadOnly b st) = readSem st"
  by (simp add: SetReadOnly_def IsReadOnly_def)

text \<open>
  C9. A facade built by \<open>NewStatsConn\<close>, for any cell, connection and semaphore, is not
  read-only, so its mutations reach the wrapped connection: Create, Update, Delete and
  every lock kind invoke it; after \<open>SetReadOnly True\<close> the same Create is rejected
  without a call.
\<close>

theorem NewStatsConn_read_write:
  "IsReadOnly (NewStatsConn c cn sem) = False
   \<and> filter isCall (trace (snd (Create (NewStatsConn c cn sem) ctx filePath contents w)))
       = filter isCall (trace w) @ [ConnCall (CallCreate ctx filePath contents)]
   \<and> filter isCall (trace (snd (Update (NewStatsConn c cn sem) ctx filePath contents version w)))
       = filter isCall (trace w) @ [ConnCall (CallUpdate ctx filePath contents version)]
   \<and> filter isCall (trace (snd (Delete (NewStatsConn c cn sem) ctx filePath version w)))
       = filter isCall (trace w) @ [ConnCall (CallDelete ctx filePath version)]
   \<and> filter isCall (trace (snd (internalLock (NewStatsConn c cn sem) ctx dirPath lockContents
         kind ttl w)))
       = filter isCall (trace w) @ [ConnCall (specLockRoute ctx dirPath lockContents kind ttl)]
   \<and> filter isCall (trace (snd (Create (SetReadOnly True (NewStatsConn c cn sem)) ctx filePath
         contents w)))
       = filter isCall (trace w)"
proof -
  have rw: "\<not> readOnly (NewStatsConn c cn sem)"
    by (simp add: NewStatsConn_def)
  have ro: "readOnly (SetReadOnly True (NewStatsConn c cn sem))"
    by (simp add: SetReadOnly_def)
  have lock: "filter isCall (trace (snd (internalLock (NewStatsConn c cn sem) ctx dirPath
         lockContents kind ttl w)))
       = filter isCall (trace w) @ [ConnCall (specLockRoute ctx dirPath lockContents kind ttl)]"
    using internalLock_dispatch [OF rw] by simp
  have rej: "filter isCall (trace (snd (Create (SetReadOnly True (NewStatsConn c cn sem)) ctx
         filePath contents w)))
       = filter isCall (trace w)"
    using ro by (simp add: Create_def)
  from rw lock rej show ?thesis
    by (simp add: IsReadOnly_def Create_delegated [OF rw] Update_delegated [OF rw]
        Delete_delegated [OF rw])
qed

text \<open>
  C10. In read-only mode the error of a lock variant names the label \<open>internalLock\<close>
  resolved, not the entry point: TryLock fails with "cannot perform Lock on ..." and not
  with the message that would name TryLock, LockName with "cannot perform LockName on
  ...", and LockWithTTL with a nonzero ttl with "cannot perform LockWithTTL on ...".
\<close>

theorem lock_readonly_error_names_label:
  assumes "readOnly st"
  shows "snd (fst (TryLock st ctx dirPath contents w))
           = Some (VtError Code_READ_ONLY
               (''cannot perform Lock on '' @ dirPath
                  @ '' as the topology server connection is read-only''))
       \<and> snd (fst (TryLock st ctx dirPath contents w))
           \<noteq> Some (VtError Code_READ_ONLY (readOnlyErrorStrFormat ''TryLock'' dirPath))
       \<and> snd (fst (LockName st ctx dirPath contents w))
           = Some (VtError Code_READ_ONLY
               (''cannot perform LockName on '' @ dirPath
                  @ '' as the topology server connection is read-only''))
       \<and> snd (fst (LockWithTTL st ctx dirPath contents ttl w))
           = Some (VtError Code_READ_ONLY
               (''cannot perform '' @ (if ttl \<noteq> 0 then ''LockWithTTL'' else ''Lock'') @ '' on ''
                  @ dirPath @ '' as the topology server connection is read-only''))
       \<and> snd (fst (internalLock st ctx dirPath contents kind ttl w))
           = Some (VtError Code_READ_ONLY (readOnlyErrorStrFormat (specLockLabel kind ttl) dirPath))"
  using assms by (simp add: lock_defs readOnlyErrorStrFormat_def specLockLabel_def)

theorem lock_readonly_error_names_label_witness:
  "readOnly (SetReadOnly True (fakeFacade None))
   \<and> snd (fst (TryLock (SetReadOnly True (fakeFacade None)) Background ''/locks'' ''me''
        (fakeWorld 0)))
     = Some (VtError Code_READ_ONLY
          ''cannot perform Lock on /locks as the topology server connection is read-only'')
   \<and> snd (fst (LockName (SetReadOnly True (fakeFacade None)) Background ''/locks'' ''me''
        (fakeWorld 0)))
     = Some (VtError Code_READ_ONLY
          ''cannot perform LockName on /locks as the topology server connection is read-only'')
   \<and> snd (fst (LockWithTTL (SetReadOnly True (fakeFacade None)) Background ''/locks'' ''me'' 5
        (fakeWorld 0)))
     = Some (VtError Code_READ_ONLY
          ''cannot perform LockWithTTL on /locks as the topology server connection is read-only'')"
proof -
  have ro: "readOnly (SetReadOnly True (fakeFacade None))"
    by (simp add: SetReadOnly_def)
  from lock_readonly_error_names_label [OF ro, where ctx = Background and dirPath = "''/locks''"
      and contents = "''me''" and w = "fakeWorld 0" and ttl = 5]
  show ?thesis using ro by simp
qed

end
